theory Spec2Isabelle
  imports Main
begin

section \<open>JavaScript strings and values\<close>

text \<open>
  A \<^typ>\<open>string\<close> stands for a JavaScript string whose code units are below 256
  (ASCII and Latin-1), one \<^typ>\<open>char\<close> per code unit.  A string is truthy iff it is
  not empty.
\<close>

text \<open>
  The white space and line terminators below 256 that \<^verbatim>\<open>String.prototype.trim\<close> removes:
  TAB, LF, VT, FF, CR, SP and NBSP.
\<close>

definition isWhiteSpace :: "char \<Rightarrow> bool" where
  "isWhiteSpace c \<longleftrightarrow> (of_char c :: nat) \<in> {9, 10, 11, 12, 13, 32, 160}"

definition trim :: "string \<Rightarrow> string" where
  "trim s = rev (dropWhile isWhiteSpace (rev (dropWhile isWhiteSpace s)))"

text \<open>
  \<^verbatim>\<open>String.prototype.toLowerCase\<close> on code units below 256: the letters A to Z and the
  Latin-1 capitals U+00C0 to U+00DE (without the multiplication sign U+00D7) move up by 32.
\<close>

definition toLowerCase_char :: "char \<Rightarrow> char" where
  "toLowerCase_char c =
     (let n = (of_char c :: nat)
      in if (65 \<le> n \<and> n \<le> 90) \<or> (192 \<le> n \<and> n \<le> 222 \<and> n \<noteq> 215)
         then char_of (n + 32) else c)"

definition toLowerCase :: "string \<Rightarrow> string" where
  "toLowerCase s = map toLowerCase_char s"

fun startsWith :: "string \<Rightarrow> string \<Rightarrow> bool" where
  "startsWith s [] = True"
| "startsWith [] (p # ps) = False"
| "startsWith (c # cs) (p # ps) = (c = p \<and> startsWith cs ps)"

text \<open>\<^verbatim>\<open>String.prototype.includes\<close>: the needle occurs somewhere in the string.\<close>

fun includes_str :: "string \<Rightarrow> string \<Rightarrow> bool" where
  "includes_str [] needle = (needle = [])"
| "includes_str (c # cs) needle = (startsWith (c # cs) needle \<or> includes_str cs needle)"

text \<open>
  A value parsed from a JSON body (the type \<^verbatim>\<open>any\<close> of \<^verbatim>\<open>AnkiConnectResponse.result\<close>).
  Objects are opaque: the code never reads a property of one.  Numbers are whole, as the
  identifiers of notes and decks are.
\<close>

datatype json = JNull | JBool bool | JNum int | JStr string | JArr "json list" | JObj

fun truthy :: "json \<Rightarrow> bool" where
  "truthy JNull = False"
| "truthy (JBool b) = b"
| "truthy (JNum n) = (n \<noteq> 0)"
| "truthy (JStr s) = (s \<noteq> [])"
| "truthy (JArr xs) = True"
| "truthy JObj = True"

text \<open>\<^verbatim>\<open>if (response.error)\<close> on a value of type \<^verbatim>\<open>string | null\<close>.\<close>

fun truthy_error :: "string option \<Rightarrow> bool" where
  "truthy_error None = False"
| "truthy_error (Some e) = (e \<noteq> [])"

text \<open>
  \<^verbatim>\<open>v.includes(name)\<close> for a string \<^verbatim>\<open>name\<close>: membership in an array, substring test on
  a string, and a \<^verbatim>\<open>TypeError\<close> (\<^const>\<open>None\<close>) on every other value, which has no
  \<^verbatim>\<open>includes\<close> method.
\<close>

fun js_includes :: "json \<Rightarrow> string \<Rightarrow> bool option" where
  "js_includes (JArr xs) name = Some (JStr name \<in> set xs)"
| "js_includes (JStr s) name = Some (includes_str s name)"
| "js_includes v name = None"

section \<open>The flashcard bridge client (\<^verbatim>\<open>src/main/services/anki.ts\<close>)\<close>

subsection \<open>Data\<close>

text \<open>
  Modelled from the spec: the declarations of \<^verbatim>\<open>ExamplePhrase\<close> and \<^verbatim>\<open>ImageResult\<close> live in
  \<^verbatim>\<open>@shared/types\<close>, which is not among the sources.  The spec gives a phrase the fields
  text, translation and category, and an image at least a thumbnail reference; these are
  the fields the code reads.
\<close>

record ExamplePhrase =
  phrase_text :: string
  translation :: string
  category :: string

record ImageResult =
  thumbnail :: string

record AnkiCard =
  word :: string
  explanation :: string
  phrase :: ExamplePhrase
  image_opt :: "ImageResult option"
  audioUrl :: "string option"

record Note =
  deckName :: string
  modelName :: string
  Front :: string
  Back :: string
  tags :: "string list"

text \<open>
  The requests the client sends, by action; every request carries
  \<^verbatim>\<open>version: API_VERSION\<close>.  \<open>StoreMediaFile filename data\<close>.
\<close>

datatype AnkiConnectRequest =
    DeckNames
  | CreateDeck string
  | AddNote Note
  | StoreMediaFile string string

definition API_VERSION :: int where
  "API_VERSION = 6"

fun action :: "AnkiConnectRequest \<Rightarrow> string" where
  "action DeckNames = ''deckNames''"
| "action (CreateDeck d) = ''createDeck''"
| "action (AddNote n) = ''addNote''"
| "action (StoreMediaFile f x) = ''storeMediaFile''"

record AnkiConnectResponse =
  result :: json
  error :: "string option"

text \<open>
  The remote tool is a state machine of any state type \<open>'r\<close>: it answers a request with a
  response envelope, or with \<^const>\<open>None\<close> when \<^verbatim>\<open>sendRequest\<close> throws (the fetch fails, the
  HTTP status is not ok, or the body is not JSON).  An exchange is a request with the
  answer it got.
\<close>

type_synonym 'r remote = "'r \<Rightarrow> AnkiConnectRequest \<Rightarrow> AnkiConnectResponse option \<times> 'r"

type_synonym exchange = "AnkiConnectRequest \<times> AnkiConnectResponse option"

subsection \<open>Promises, \<^verbatim>\<open>await\<close> and \<^verbatim>\<open>try\<close>/\<^verbatim>\<open>catch\<close>\<close>

text \<open>
  An asynchronous call, started in a state of the remote tool, ends with either a thrown
  value (\<^const>\<open>Inl\<close>, the promise rejects) or a result (\<^const>\<open>Inr\<close>, it fulfils), the state
  the remote tool is left in, and the exchanges made, oldest first.  \<^verbatim>\<open>await\<close> passes a
  result on to the rest of the function and rethrows a rejection; \<^verbatim>\<open>try\<close>/\<^verbatim>\<open>catch\<close> hands a
  thrown value to its handler.
\<close>

datatype exn = TransportError | TypeError | Error string

type_synonym ('r, 'a) run = "(exn + 'a) \<times> 'r \<times> exchange list"

definition await :: "('r, 'a) run \<Rightarrow> ('a \<Rightarrow> 'r \<Rightarrow> ('r, 'b) run) \<Rightarrow> ('r, 'b) run" where
  "await p k =
     (case p of
        (Inl e, r, ex) \<Rightarrow> (Inl e, r, ex)
      | (Inr v, r, ex) \<Rightarrow> (case k v r of (x, r', ex') \<Rightarrow> (x, r', ex @ ex')))"

definition try_catch :: "('r, 'a) run \<Rightarrow> (exn \<Rightarrow> 'r \<Rightarrow> ('r, 'a) run) \<Rightarrow> ('r, 'a) run" where
  "try_catch p h =
     (case p of
        (Inl e, r, ex) \<Rightarrow> (case h e r of (x, r', ex') \<Rightarrow> (x, r', ex @ ex'))
      | (Inr v, r, ex) \<Rightarrow> (Inr v, r, ex))"

definition return :: "'a \<Rightarrow> 'r \<Rightarrow> ('r, 'a) run" where
  "return v r = (Inr v, r, [])"

definition throw :: "exn \<Rightarrow> 'r \<Rightarrow> ('r, 'a) run" where
  "throw e r = (Inl e, r, [])"

subsection \<open>Operations\<close>

text \<open>
  \<^verbatim>\<open>sendRequest\<close> posts the request; it throws when the remote gives no envelope.
\<close>

definition sendRequest ::
  "'r remote \<Rightarrow> AnkiConnectRequest \<Rightarrow> 'r \<Rightarrow> ('r, AnkiConnectResponse) run" where
  "sendRequest rem req r =
     (case rem r req of (resp, r') \<Rightarrow>
        ((case resp of None \<Rightarrow> Inl TransportError | Some response \<Rightarrow> Inr response),
         r', [(req, resp)]))"

definition getDeckNames :: "'r remote \<Rightarrow> 'r \<Rightarrow> ('r, json) run" where
  "getDeckNames rem r =
     try_catch
       (await (sendRequest rem DeckNames r) (\<lambda>response.
          return (if error response = None then result response else JArr [])))
       (\<lambda>e. return (JArr []))"

definition createDeck :: "'r remote \<Rightarrow> string \<Rightarrow> 'r \<Rightarrow> ('r, bool) run" where
  "createDeck rem deck r =
     try_catch
       (await (sendRequest rem (CreateDeck deck) r) (\<lambda>response.
          return (error response = None)))
       (\<lambda>e. return False)"

record CardData =
  front_html :: string
  back_html :: string

definition formatCard :: "AnkiCard \<Rightarrow> CardData" where
  \<open>formatCard c =
     (let imageHtml =
            (case image_opt c of
               Some img \<Rightarrow>
                 ''<img src="'' @ thumbnail img @ ''" alt="'' @ word c @
                 ''" style="max-width: 300px; height: auto; border-radius: 8px; margin-bottom: 16px;">''
             | None \<Rightarrow> '''');
          audioHtml =
            (case audioUrl c of
               Some url \<Rightarrow>
                 if url \<noteq> [] then
                   ''<audio controls style="width: 100%; margin-top: 16px;"><source src="'' @ url @
                   ''" type="audio/mpeg">Your browser does not support the audio element.</audio>''
                 else ''''
             | None \<Rightarrow> '''');
          explanationHtml =
            (if explanation c \<noteq> [] then
               ''<div style="background: #f8fafc; border-left: 4px solid #3b82f6; padding: 16px; margin: 16px 0; border-radius: 4px;">\<newline>'' @
               ''                 <h3 style="margin: 0 0 8px 0; color: #1e40af;">Explanation</h3>\<newline>'' @
               ''                 <p style="margin: 0; color: #374151;">'' @
               explanation c @
               ''</p>\<newline>'' @
               ''               </div>''
             else '''')
      in \<lparr>front_html =
            ''\<newline>'' @
            ''      <div style="text-align: center; font-family: system-ui, -apple-system, sans-serif;">\<newline>'' @
            ''        '' @
            imageHtml @
            ''\<newline>'' @
            ''        <h2 style="color: #2563eb; margin: 16px 0; font-size: 2rem; font-weight: bold;">'' @
            word c @
            ''</h2>\<newline>'' @
            ''      </div>\<newline>'' @
            ''    '',
          back_html =
            ''\<newline>'' @
            ''      <div style="font-family: system-ui, -apple-system, sans-serif; line-height: 1.6;">\<newline>'' @
            ''        '' @
            imageHtml @
            ''\<newline>'' @
            ''        <h2 style="color: #2563eb; margin: 16px 0 24px 0; font-size: 2rem; font-weight: bold;">'' @
            word c @
            ''</h2>\<newline>'' @
            ''        \<newline>'' @
            ''        '' @
            explanationHtml @
            ''\<newline>'' @
            ''        \<newline>'' @
            ''        <div style="background: #f0f9ff; border-left: 4px solid #0ea5e9; padding: 16px; margin: 16px 0; border-radius: 4px;">\<newline>'' @
            ''          <h3 style="margin: 0 0 8px 0; color: #0369a1;">Example Phrase</h3>\<newline>'' @
            ''          <p style="margin: 0 0 8px 0; font-weight: 500; color: #1e293b;">'' @
            phrase_text (phrase c) @
            ''</p>\<newline>'' @
            ''          <p style="margin: 0; font-style: italic; color: #64748b;">'' @
            translation (phrase c) @
            ''</p>\<newline>'' @
            ''          <span style="display: inline-block; background: #dbeafe; color: #1e40af; padding: 4px 8px; border-radius: 12px; font-size: 0.75rem; margin-top: 8px;">'' @
            category (phrase c) @
            ''</span>\<newline>'' @
            ''        </div>\<newline>'' @
            ''        \<newline>'' @
            ''        '' @
            audioHtml @
            ''\<newline>'' @
            ''      </div>\<newline>'' @
            ''    ''\<rparr>)\<close>

text \<open>
  \<^verbatim>\<open>audioUrl.replace(/^data:audio\/[^;]+;base64,/, "")\<close>: a leading \<^verbatim>\<open>data:audio/\<close>, one or
  more characters other than a semicolon, then \<^verbatim>\<open>;base64,\<close> are removed; a string that
  does not start so is left as it is.
\<close>

definition stripDataUrlPrefix :: "string \<Rightarrow> string" where
  "stripDataUrlPrefix s =
     (if startsWith s ''data:audio/'' then
        (let rest = drop 11 s;
             mime = takeWhile (\<lambda>c. c \<noteq> CHR '';'') rest;
             tail = dropWhile (\<lambda>c. c \<noteq> CHR '';'') rest
         in if mime \<noteq> [] \<and> startsWith tail '';base64,'' then drop 8 tail else s)
      else s)"

text \<open>The note id is passed in and never used; every failure is caught and logged.\<close>

definition addAudioToCard ::
  "'r remote \<Rightarrow> json \<Rightarrow> string \<Rightarrow> string \<Rightarrow> 'r \<Rightarrow> ('r, unit) run" where
  "addAudioToCard rem noteId url filename r =
     try_catch
       (await (sendRequest rem
                 (StoreMediaFile (filename @ ''_audio.mp3'') (stripDataUrlPrefix url)) r)
          (\<lambda>response. return ()))
       (\<lambda>e. return ())"

text \<open>The note that \<^verbatim>\<open>addCard\<close> puts into its \<^verbatim>\<open>addNote\<close> request.\<close>

definition noteOf :: "AnkiCard \<Rightarrow> string \<Rightarrow> Note" where
  "noteOf c deck =
     (let cardData = formatCard c
      in \<lparr>deckName = deck, modelName = ''Basic'',
          Front = front_html cardData, Back = back_html cardData,
          tags = [''exemplar'', ''vocabulary'', toLowerCase (word c)]\<rparr>)"

definition DEFAULT_DECK :: string where
  "DEFAULT_DECK = ''Exemplar::Vocabulary''"

text \<open>
  \<^verbatim>\<open>addCard\<close>: the whole body is one \<^verbatim>\<open>try\<close> block whose \<^verbatim>\<open>catch\<close> logs and returns false.
  Calling \<^verbatim>\<open>includes\<close> on a value without that method, a deck that could not be
  created and a truthy \<^verbatim>\<open>response.error\<close> throw inside it, as does \<^verbatim>\<open>sendRequest\<close>.
\<close>

definition addCard :: "'r remote \<Rightarrow> AnkiCard \<Rightarrow> string \<Rightarrow> 'r \<Rightarrow> ('r, bool) run" where
  "addCard rem c deck r =
     try_catch
       (await (getDeckNames rem r) (\<lambda>deckNames r1.
        await
          (case js_includes deckNames deck of
             None \<Rightarrow> throw TypeError r1
           | Some True \<Rightarrow> return () r1
           | Some False \<Rightarrow>
               await (createDeck rem deck r1) (\<lambda>created.
                 if \<not> created then throw (Error (''Failed to create deck: '' @ deck))
                 else return ()))
          (\<lambda>_ r2.
        await (sendRequest rem (AddNote (noteOf c deck)) r2) (\<lambda>response r3.
          if truthy_error (error response)
          then throw (Error (case error response of Some e \<Rightarrow> e | None \<Rightarrow> [])) r3
          else
            await
              (case audioUrl c of
                 Some url \<Rightarrow>
                   if url \<noteq> [] \<and> truthy (result response)
                   then addAudioToCard rem (result response) url (word c) r3
                   else return () r3
               | None \<Rightarrow> return () r3)
              (\<lambda>_. return True)))))
       (\<lambda>e. return False)"

record Tally =
  success :: int
  failed :: int

text \<open>
  The loop of \<^verbatim>\<open>addCards\<close> over the remaining cards, with the two counters; \<^verbatim>\<open>await\<close>
  would rethrow a rejection of \<^verbatim>\<open>addCard\<close>.
\<close>

fun addCards_loop ::
  "'r remote \<Rightarrow> AnkiCard list \<Rightarrow> string \<Rightarrow> Tally \<Rightarrow> 'r \<Rightarrow> ('r, Tally) run" where
  "addCards_loop rem [] deck t r = return t r"
| "addCards_loop rem (c # cs) deck t r =
     await (addCard rem c deck r) (\<lambda>res.
       addCards_loop rem cs deck
         (if res then t\<lparr>success := success t + 1\<rparr> else t\<lparr>failed := failed t + 1\<rparr>))"

definition addCards :: "'r remote \<Rightarrow> AnkiCard list \<Rightarrow> string \<Rightarrow> 'r \<Rightarrow> ('r, Tally) run" where
  "addCards rem cards deck r = addCards_loop rem cards deck \<lparr>success = 0, failed = 0\<rparr> r"


subsection \<open>Reading a log of exchanges\<close>

fun isDeckNames :: "exchange \<Rightarrow> bool" where
  "isDeckNames (DeckNames, resp) = True"
| "isDeckNames (req, resp) = False"

fun isCreateDeck :: "exchange \<Rightarrow> bool" where
  "isCreateDeck (CreateDeck d, resp) = True"
| "isCreateDeck (req, resp) = False"

fun isAddNote :: "exchange \<Rightarrow> bool" where
  "isAddNote (AddNote n, resp) = True"
| "isAddNote (req, resp) = False"

text \<open>An \<^verbatim>\<open>addNote\<close> exchange that \<^verbatim>\<open>addCard\<close> takes as a success: answered, with a falsy error.\<close>

fun accepted :: "exchange \<Rightarrow> bool" where
  "accepted (AddNote n, Some response) = (\<not> truthy_error (error response))"
| "accepted (req, resp) = False"

text \<open>The answer to the deck-names query, as \<^verbatim>\<open>getDeckNames\<close> reads it.\<close>

fun namesOf :: "AnkiConnectResponse option \<Rightarrow> json" where
  "namesOf None = JArr []"
| "namesOf (Some response) = (if error response = None then result response else JArr [])"

text \<open>The answer to a create-deck call, as \<^verbatim>\<open>createDeck\<close> reads it.\<close>

fun createdBy :: "AnkiConnectResponse option \<Rightarrow> bool" where
  "createdBy None = False"
| "createdBy (Some response) = (error response = None)"

subsection \<open>A test double of the bridge\<close>

text \<open>
  A bridge for concrete runs.  When it is not online every request throws.  It lists its
  decks, creates a deck unless it still has creation failures to deliver, refuses a note
  that carries a rejected tag, and numbers the notes it stores.
\<close>

record Bridge =
  online :: bool
  decks :: "string list"
  createFailures :: nat
  rejected :: "string list"
  noteCount :: int

fun bridge :: "Bridge remote" where
  "bridge b DeckNames =
     (if \<not> online b then (None, b)
      else (Some \<lparr>result = JArr (map JStr (decks b)), error = None\<rparr>, b))"
| "bridge b (CreateDeck d) =
     (if \<not> online b then (None, b)
      else if 0 < createFailures b
      then (Some \<lparr>result = JNull, error = Some ''deck was not created''\<rparr>,
            b\<lparr>createFailures := createFailures b - 1\<rparr>)
      else (Some \<lparr>result = JNum 1, error = None\<rparr>, b\<lparr>decks := decks b @ [d]\<rparr>))"
| "bridge b (AddNote n) =
     (if \<not> online b then (None, b)
      else if list_ex (\<lambda>t. t \<in> set (rejected b)) (tags n)
      then (Some \<lparr>result = JNull, error = Some ''cannot create note''\<rparr>, b)
      else (Some \<lparr>result = JNum (noteCount b + 1), error = None\<rparr>,
            b\<lparr>noteCount := noteCount b + 1\<rparr>))"
| "bridge b (StoreMediaFile f x) =
     (if \<not> online b then (None, b)
      else (Some \<lparr>result = JStr f, error = None\<rparr>, b))"

definition freshBridge :: Bridge where
  "freshBridge = \<lparr>online = True, decks = [''Default''], createFailures = 0, rejected = [], noteCount = 0\<rparr>"

text \<open>
  A second double, for runs in which the answers are fixed beforehand: it gives them out
  in order, whatever is requested, and throws once they are used up.
\<close>

definition scripted :: "AnkiConnectResponse option list remote" where
  "scripted answers req = (case answers of [] \<Rightarrow> (None, []) | a # rest \<Rightarrow> (a, rest))"

definition noError :: "json \<Rightarrow> AnkiConnectResponse option" where
  "noError v = Some \<lparr>result = v, error = None\<rparr>"

definition cardFor :: "string \<Rightarrow> AnkiCard" where
  "cardFor w =
     \<lparr>word = w, explanation = ''house'',
      phrase = \<lparr>phrase_text = ''mi '' @ w, translation = ''my house'', category = ''nouns''\<rparr>,
      image_opt = None, audioUrl = None\<rparr>"

text \<open>The card of the round-trip example.\<close>

definition casaCard :: AnkiCard where
  "casaCard =
     \<lparr>word = ''casa'', explanation = ''house'',
      phrase = \<lparr>phrase_text = ''mi casa'', translation = ''my house'', category = ''nouns''\<rparr>,
      image_opt = None, audioUrl = None\<rparr>"


subsection \<open>Remote tools that keep or refuse the deck\<close>

text \<open>
  \<open>has\<close> holds in the states of the remote tool in which the deck exists: the deck-names
  query lists it there, and it stays whatever is requested.
\<close>

definition deckListed :: "'r remote \<Rightarrow> ('r \<Rightarrow> bool) \<Rightarrow> string \<Rightarrow> bool" where
  "deckListed rem has deck \<longleftrightarrow>
     (\<forall>r. has r \<longrightarrow>
        js_includes (namesOf (fst (rem r DeckNames))) deck = Some True \<and>
        (\<forall>req. has (snd (rem r req))))"

text \<open>
  \<open>fresh\<close> holds in the states in which the deck does not exist yet and its creation
  succeeds: the deck-names query does not list it, and the create-deck call answers without
  an error and leads to a state that has the deck.
\<close>

definition deckCreatable :: "'r remote \<Rightarrow> ('r \<Rightarrow> bool) \<Rightarrow> ('r \<Rightarrow> bool) \<Rightarrow> string \<Rightarrow> bool" where
  "deckCreatable rem fresh has deck \<longleftrightarrow>
     deckListed rem has deck \<and>
     (\<forall>r. fresh r \<longrightarrow>
        js_includes (namesOf (fst (rem r DeckNames))) deck = Some False \<and>
        fresh (snd (rem r DeckNames)) \<and>
        createdBy (fst (rem r (CreateDeck deck))) \<and>
        has (snd (rem r (CreateDeck deck))))"

text \<open>
  \<open>stuck\<close> holds in the states in which the deck-ensure step fails and goes on failing: the
  deck is not listed and the create-deck call fails.
\<close>

definition deckUnavailable :: "'r remote \<Rightarrow> ('r \<Rightarrow> bool) \<Rightarrow> string \<Rightarrow> bool" where
  "deckUnavailable rem stuck deck \<longleftrightarrow>
     (\<forall>r. stuck r \<longrightarrow>
        js_includes (namesOf (fst (rem r DeckNames))) deck = Some False \<and>
        stuck (snd (rem r DeckNames)) \<and>
        \<not> createdBy (fst (rem r (CreateDeck deck))) \<and>
        stuck (snd (rem r (CreateDeck deck))))"

definition bridgeHas :: "string \<Rightarrow> Bridge \<Rightarrow> bool" where
  "bridgeHas d b \<longleftrightarrow> online b \<and> d \<in> set (decks b)"

definition bridgeFresh :: "string \<Rightarrow> Bridge \<Rightarrow> bool" where
  "bridgeFresh d b \<longleftrightarrow> online b \<and> d \<notin> set (decks b) \<and> createFailures b = 0"

section \<open>The search view (the \<^verbatim>\<open>App\<close> component)\<close>

subsection \<open>Data\<close>

text \<open>
  Modelled from the spec: \<^verbatim>\<open>PaginatedImageResult\<close>, \<^verbatim>\<open>SearchResult\<close> and \<^verbatim>\<open>AppSettings\<close> are
  declared in \<^verbatim>\<open>@shared/types\<close>, which is not among the sources.  The fields are those of
  the spec's data model, which are the ones the component reads and writes; the settings
  are never looked into here.
\<close>

record PaginatedImageResult =
  images :: "ImageResult list"
  currentPage :: int
  totalPages :: int
  hasNext :: bool
  hasPrevious :: bool

record SearchResult =
  result_word :: string
  result_images :: "ImageResult list"
  result_phrases :: "ExamplePhrase list"

typedecl AppSettings

text \<open>The component's state: one field per \<^verbatim>\<open>useState\<close>.\<close>

record AppState =
  currentWord :: string
  searchResult :: "SearchResult option"
  paginatedImages :: "PaginatedImageResult option"
  explanation_st :: "string option"
  isLoading :: bool
  isImagesLoading :: bool
  showSettings :: bool
  showAnkiCardCreator :: bool
  selectedPhrases :: "ExamplePhrase list"
  selectedImages :: "ImageResult list"
  ankiMode :: bool
  settings :: "AppSettings option"

text \<open>
  The calls made through \<^verbatim>\<open>window.electronAPI\<close>; \<open>SearchImages word page perPage\<close>.  A call
  settles fulfilled with a value or rejected; the reason of a rejection is only logged.
\<close>

datatype ApiCall =
    AddSearch string
  | SearchImages string int int
  | GeneratePhrases string
  | GenerateExplanation string

datatype 'a settled = Fulfilled 'a | Rejected

text \<open>
  Modelled from the spec: the preload script that declares \<^verbatim>\<open>window.electronAPI\<close> is not
  among the sources.  The spec gives the image search a paginated result, the phrase
  generation a sequence of phrases and the explanation generation a string.  How each
  call settles is given by the environment.
\<close>

record ElectronAPI =
  addSearch :: "string \<Rightarrow> unit settled"
  searchImages :: "string \<Rightarrow> int \<Rightarrow> int \<Rightarrow> PaginatedImageResult settled"
  generatePhrases :: "string \<Rightarrow> ExamplePhrase list settled"
  generateExplanation :: "string \<Rightarrow> string settled"

subsection \<open>\<^verbatim>\<open>handleSearch\<close>\<close>

text \<open>The state updates made before the \<^verbatim>\<open>try\<close> block.\<close>

definition handleSearch_begin :: "AppState \<Rightarrow> string \<Rightarrow> AppState" where
  "handleSearch_begin s w =
     s\<lparr>isLoading := True, isImagesLoading := True, currentWord := w, explanation_st := None,
       paginatedImages := None, selectedPhrases := [], selectedImages := [], ankiMode := False\<rparr>"

text \<open>The \<^verbatim>\<open>finally\<close> block.\<close>

definition handleSearch_finally :: "AppState \<Rightarrow> AppState" where
  "handleSearch_finally s = s\<lparr>isLoading := False, isImagesLoading := False\<rparr>"

text \<open>The rest of the \<^verbatim>\<open>try\<close> block once \<^verbatim>\<open>Promise.allSettled\<close> has the three outcomes.\<close>

definition handleSearch_settled ::
  "AppState \<Rightarrow> string \<Rightarrow> PaginatedImageResult settled \<Rightarrow> ExamplePhrase list settled \<Rightarrow>
   string settled \<Rightarrow> AppState" where
  "handleSearch_settled s w imgs phrases wordExplanation =
     (let imageResults =
            (case imgs of
               Fulfilled v \<Rightarrow> v
             | Rejected \<Rightarrow>
                 \<lparr>images = [], currentPage = 1, totalPages = 1, hasNext = False, hasPrevious = False\<rparr>);
          phraseResults = (case phrases of Fulfilled v \<Rightarrow> v | Rejected \<Rightarrow> []);
          explanationResult = (case wordExplanation of Fulfilled v \<Rightarrow> Some v | Rejected \<Rightarrow> None)
      in s\<lparr>paginatedImages := Some imageResults,
           searchResult :=
             Some \<lparr>result_word = w, result_images = images imageResults,
                   result_phrases = phraseResults\<rparr>,
           explanation_st := explanationResult\<rparr>)"

definition lookups :: "string \<Rightarrow> ApiCall list" where
  "lookups w = [SearchImages w 1 6, GeneratePhrases w, GenerateExplanation w]"

text \<open>
  One run of \<^verbatim>\<open>handleSearch\<close> with nothing else in between: the state it leaves and the
  calls it made, in order.  A rejected \<^verbatim>\<open>addSearch\<close> is thrown by its \<^verbatim>\<open>await\<close> inside the
  \<^verbatim>\<open>try\<close> block and caught by the \<^verbatim>\<open>catch\<close>, which logs it.
\<close>

definition handleSearch :: "ElectronAPI \<Rightarrow> AppState \<Rightarrow> string \<Rightarrow> AppState \<times> ApiCall list" where
  "handleSearch api s w =
     (if trim w = [] then (s, [])
      else
        (let s1 = handleSearch_begin s w
         in case addSearch api w of
              Rejected \<Rightarrow> (handleSearch_finally s1, [AddSearch w])
            | Fulfilled u \<Rightarrow>
                (handleSearch_finally
                   (handleSearch_settled s1 w (searchImages api w 1 6) (generatePhrases api w)
                      (generateExplanation api w)),
                 AddSearch w # lookups w)))"

subsection \<open>\<^verbatim>\<open>handlePageChange\<close>\<close>

text \<open>The guard, the flag and the request: up to the \<^verbatim>\<open>await\<close>.\<close>

definition handlePageChange_begin :: "AppState \<Rightarrow> int \<Rightarrow> (AppState \<times> ApiCall) option" where
  "handlePageChange_begin s page =
     (if currentWord s = [] \<or> isImagesLoading s then None
      else Some (s\<lparr>isImagesLoading := True\<rparr>, SearchImages (currentWord s) page 6))"

text \<open>From the settled request on: the rest of the \<^verbatim>\<open>try\<close> block or the \<^verbatim>\<open>catch\<close>, then \<^verbatim>\<open>finally\<close>.\<close>

definition handlePageChange_settled :: "AppState \<Rightarrow> PaginatedImageResult settled \<Rightarrow> AppState" where
  "handlePageChange_settled s out =
     (case out of
        Fulfilled imageResult \<Rightarrow>
          s\<lparr>paginatedImages := Some imageResult,
            searchResult :=
              (case searchResult s of
                 Some prev \<Rightarrow> Some (prev\<lparr>result_images := images imageResult\<rparr>)
               | None \<Rightarrow> None),
            isImagesLoading := False\<rparr>
      | Rejected \<Rightarrow> s\<lparr>isImagesLoading := False\<rparr>)"

definition handlePageChange :: "ElectronAPI \<Rightarrow> AppState \<Rightarrow> int \<Rightarrow> AppState \<times> ApiCall list" where
  "handlePageChange api s page =
     (case handlePageChange_begin s page of
        None \<Rightarrow> (s, [])
      | Some (s1, call) \<Rightarrow>
          (handlePageChange_settled s1 (searchImages api (currentWord s) page 6), [call]))"

subsection \<open>Handlers that overlap\<close>

text \<open>
  Between two \<^verbatim>\<open>await\<close>s a handler runs without interruption, and the view is rendered
  again before the next event, so every handler reads the state that the steps before it
  left.  A session is that state, the calls awaited at the moment (oldest first) and the
  calls made so far.  An event is the user starting a search or asking for a page, or one
  of the awaited calls settling; the number says which one, by its place among the awaited.
\<close>

datatype Task =
    AwaitAddSearch string
  | AwaitLookups string
  | AwaitPage string int

datatype Event =
    Search string
  | PageChange int
  | AddSearchSettled nat "unit settled"
  | LookupsSettled nat "PaginatedImageResult settled" "ExamplePhrase list settled" "string settled"
  | PageSettled nat "PaginatedImageResult settled"

record Session =
  app :: AppState
  pending :: "Task list"
  calls :: "ApiCall list"

definition without :: "nat \<Rightarrow> 'a list \<Rightarrow> 'a list" where
  "without i xs = take i xs @ drop (Suc i) xs"

text \<open>An event that names no awaited call of its kind does not happen: the session stays.\<close>

fun step :: "Session \<Rightarrow> Event \<Rightarrow> Session" where
  "step \<sigma> (Search w) =
     (if trim w = [] then \<sigma>
      else \<sigma>\<lparr>app := handleSearch_begin (app \<sigma>) w,
             pending := pending \<sigma> @ [AwaitAddSearch w],
             calls := calls \<sigma> @ [AddSearch w]\<rparr>)"
| "step \<sigma> (PageChange page) =
     (case handlePageChange_begin (app \<sigma>) page of
        None \<Rightarrow> \<sigma>
      | Some (s1, call) \<Rightarrow>
          \<sigma>\<lparr>app := s1,
            pending := pending \<sigma> @ [AwaitPage (currentWord (app \<sigma>)) page],
            calls := calls \<sigma> @ [call]\<rparr>)"
| "step \<sigma> (AddSearchSettled i out) =
     (if i < length (pending \<sigma>) then
        (case pending \<sigma> ! i of
           AwaitAddSearch w \<Rightarrow>
             (case out of
                Rejected \<Rightarrow>
                  \<sigma>\<lparr>app := handleSearch_finally (app \<sigma>), pending := without i (pending \<sigma>)\<rparr>
              | Fulfilled u \<Rightarrow>
                  \<sigma>\<lparr>pending := (pending \<sigma>)[i := AwaitLookups w],
                    calls := calls \<sigma> @ lookups w\<rparr>)
         | AwaitLookups w \<Rightarrow> \<sigma>
         | AwaitPage w page \<Rightarrow> \<sigma>)
      else \<sigma>)"
| "step \<sigma> (LookupsSettled i imgs phrases wordExplanation) =
     (if i < length (pending \<sigma>) then
        (case pending \<sigma> ! i of
           AwaitLookups w \<Rightarrow>
             \<sigma>\<lparr>app := handleSearch_finally
                       (handleSearch_settled (app \<sigma>) w imgs phrases wordExplanation),
               pending := without i (pending \<sigma>)\<rparr>
         | AwaitAddSearch w \<Rightarrow> \<sigma>
         | AwaitPage w page \<Rightarrow> \<sigma>)
      else \<sigma>)"
| "step \<sigma> (PageSettled i out) =
     (if i < length (pending \<sigma>) then
        (case pending \<sigma> ! i of
           AwaitPage w page \<Rightarrow>
             \<sigma>\<lparr>app := handlePageChange_settled (app \<sigma>) out,
               pending := without i (pending \<sigma>)\<rparr>
         | AwaitAddSearch w \<Rightarrow> \<sigma>
         | AwaitLookups w \<Rightarrow> \<sigma>)
      else \<sigma>)"

definition run :: "Session \<Rightarrow> Event list \<Rightarrow> Session" where
  "run \<sigma> events = foldl step \<sigma> events"

definition initialState :: AppState where
  "initialState =
     \<lparr>currentWord = [], searchResult = None, paginatedImages = None, explanation_st = None,
      isLoading = False, isImagesLoading = False, showSettings = False,
      showAnkiCardCreator = False, selectedPhrases = [], selectedImages = [], ankiMode = False,
      settings = None\<rparr>"

definition initialSession :: Session where
  "initialSession = \<lparr>app = initialState, pending = [], calls = []\<rparr>"

text \<open>A page of images for the concrete runs: one image named after the word and the page.\<close>

definition pageOf :: "string \<Rightarrow> int \<Rightarrow> PaginatedImageResult" where
  "pageOf w p =
     \<lparr>images = [\<lparr>thumbnail = w\<rparr>], currentPage = p, totalPages = 3,
      hasNext = (p < 3), hasPrevious = (1 < p)\<rparr>"

text \<open>
  Three environments for the concrete runs: one whose image search is down, one whose
  search history is down, one in which every call fulfils; and the state a search for
  perro has left, with a phrase and an image selected.
\<close>

definition somePhrases :: "string \<Rightarrow> ExamplePhrase list" where
  "somePhrases w = [\<lparr>phrase_text = ''mi '' @ w, translation = ''my house'', category = ''nouns''\<rparr>]"

definition noImagesApi :: ElectronAPI where
  "noImagesApi =
     \<lparr>addSearch = (\<lambda>w. Fulfilled ()), searchImages = (\<lambda>w p n. Rejected),
      generatePhrases = (\<lambda>w. Fulfilled (somePhrases w)),
      generateExplanation = (\<lambda>w. Fulfilled ''house'')\<rparr>"

definition noHistoryApi :: ElectronAPI where
  "noHistoryApi =
     \<lparr>addSearch = (\<lambda>w. Rejected), searchImages = (\<lambda>w p n. Fulfilled (pageOf w p)),
      generatePhrases = (\<lambda>w. Fulfilled (somePhrases w)),
      generateExplanation = (\<lambda>w. Fulfilled ''house'')\<rparr>"

definition workingApi :: ElectronAPI where
  "workingApi =
     \<lparr>addSearch = (\<lambda>w. Fulfilled ()), searchImages = (\<lambda>w p n. Fulfilled (pageOf w p)),
      generatePhrases = (\<lambda>w. Fulfilled (somePhrases w)),
      generateExplanation = (\<lambda>w. Fulfilled ''house'')\<rparr>"

definition previousState :: AppState where
  "previousState =
     \<lparr>currentWord = ''perro'',
      searchResult =
        Some \<lparr>result_word = ''perro'', result_images = images (pageOf ''perro'' 1),
              result_phrases = somePhrases ''perro''\<rparr>,
      paginatedImages = Some (pageOf ''perro'' 1), explanation_st = Some ''dog'',
      isLoading = False, isImagesLoading = False, showSettings = False,
      showAnkiCardCreator = False, selectedPhrases = somePhrases ''perro'',
      selectedImages = images (pageOf ''perro'' 1), ankiMode = True, settings = None\<rparr>"

text \<open>
  A page request for the word a is still awaited when a search for b starts and settles;
  then the user asks for page 3.
\<close>

definition overlappingEvents :: "Event list" where
  "overlappingEvents =
     [Search ''a'', AddSearchSettled 0 (Fulfilled ()),
      LookupsSettled 0 (Fulfilled (pageOf ''a'' 1)) (Fulfilled []) (Fulfilled ''x''),
      PageChange 2,
      Search ''b'', AddSearchSettled 1 (Fulfilled ()),
      LookupsSettled 1 (Fulfilled (pageOf ''b'' 1)) (Fulfilled []) (Fulfilled ''y''),
      PageChange 3]"

section \<open>Properties of the flashcard bridge client\<close>

subsection \<open>Each operation in terms of the remote's answers\<close>

lemma sendRequest_eq:
  "sendRequest rem req r =
     ((case fst (rem r req) of None \<Rightarrow> Inl TransportError | Some response \<Rightarrow> Inr response),
      snd (rem r req), [(req, fst (rem r req))])"
  by (simp add: sendRequest_def split: prod.splits)

lemma getDeckNames_eq:
  "getDeckNames rem r =
     (Inr (namesOf (fst (rem r DeckNames))), snd (rem r DeckNames),
      [(DeckNames, fst (rem r DeckNames))])"
  by (simp add: getDeckNames_def sendRequest_eq await_def try_catch_def return_def
      split: option.splits)

lemma createDeck_eq:
  "createDeck rem d r =
     (Inr (createdBy (fst (rem r (CreateDeck d)))), snd (rem r (CreateDeck d)),
      [(CreateDeck d, fst (rem r (CreateDeck d)))])"
  by (simp add: createDeck_def sendRequest_eq await_def try_catch_def return_def
      split: option.splits)

lemma addAudioToCard_eq:
  "addAudioToCard rem noteId url filename r =
     (Inr (), snd (rem r (StoreMediaFile (filename @ ''_audio.mp3'') (stripDataUrlPrefix url))),
      [(StoreMediaFile (filename @ ''_audio.mp3'') (stripDataUrlPrefix url),
        fst (rem r (StoreMediaFile (filename @ ''_audio.mp3'') (stripDataUrlPrefix url))))])"
  by (simp add: addAudioToCard_def sendRequest_eq await_def try_catch_def return_def
      split: option.splits)

text \<open>
  \<^const>\<open>addCard\<close> written out: which exchanges it makes and what it returns, by the answers
  it gets.
\<close>

lemma addCard_eq:
  "addCard rem c deck r =
     (let a = fst (rem r DeckNames); r1 = snd (rem r DeckNames);
          note = AddNote (noteOf c deck)
      in case js_includes (namesOf a) deck of
           None \<Rightarrow> (Inr False, r1, [(DeckNames, a)])
         | Some present \<Rightarrow>
             (let b = fst (rem r1 (CreateDeck deck));
                  r2 = (if present then r1 else snd (rem r1 (CreateDeck deck)));
                  ex2 = (DeckNames, a) # (if present then [] else [(CreateDeck deck, b)])
              in if \<not> present \<and> \<not> createdBy b then (Inr False, r2, ex2)
                 else
                   (let n = fst (rem r2 note); r3 = snd (rem r2 note)
                    in if \<not> accepted (note, n) then (Inr False, r3, ex2 @ [(note, n)])
                       else
                         (case audioUrl c of
                            None \<Rightarrow> (Inr True, r3, ex2 @ [(note, n)])
                          | Some url \<Rightarrow>
                              if url \<noteq> [] \<and>
                                 (case n of Some response \<Rightarrow> truthy (result response)
                                  | None \<Rightarrow> False)
                              then (let media = StoreMediaFile (word c @ ''_audio.mp3'')
                                                  (stripDataUrlPrefix url)
                                    in (Inr True, snd (rem r3 media),
                                        ex2 @ [(note, n), (media, fst (rem r3 media))]))
                              else (Inr True, r3, ex2 @ [(note, n)])))))"
  by (simp add: addCard_def getDeckNames_eq createDeck_eq addAudioToCard_eq sendRequest_eq
      await_def try_catch_def return_def throw_def Let_def split: option.split bool.split)

lemma addCard_fulfils: "\<exists>b. fst (addCard rem c deck r) = Inr b"
  by (auto simp: addCard_eq Let_def split: option.split)

lemma addCard_cases:
  obtains b r1 ex1 where "addCard rem c deck r = (Inr b, r1, ex1)"
  using addCard_fulfils [of rem c deck r] by (cases "addCard rem c deck r") auto

lemma addCard_accepted:
  "length (filter accepted (snd (snd (addCard rem c deck r)))) =
     (if fst (addCard rem c deck r) = Inr True then 1 else 0)"
  by (auto simp: addCard_eq Let_def split: option.split)

lemma addCard_deckNames:
  "length (filter isDeckNames (snd (snd (addCard rem c deck r)))) = 1"
  by (auto simp: addCard_eq Let_def split: option.split)

lemma addCard_addNote:
  "map fst (filter isAddNote (snd (snd (addCard rem c deck r)))) = [] \<or>
   map fst (filter isAddNote (snd (snd (addCard rem c deck r)))) = [AddNote (noteOf c deck)]"
  by (auto simp: addCard_eq Let_def split: option.split)

lemma modelName_noteOf [simp]: "modelName (noteOf c deck) = ''Basic''"
  by (simp add: noteOf_def Let_def)

lemma tags_noteOf [simp]:
  "tags (noteOf c deck) = [''exemplar'', ''vocabulary'', toLowerCase (word c)]"
  by (simp add: noteOf_def Let_def)

lemma deckName_noteOf [simp]: "deckName (noteOf c deck) = deck"
  by (simp add: noteOf_def Let_def)

subsection \<open>The loop over the cards\<close>

lemma addCards_loop_Cons:
  assumes "addCard rem c deck r = (Inr b, r1, ex1)"
    and "addCards_loop rem cs deck
           (if b then t\<lparr>success := success t + 1\<rparr> else t\<lparr>failed := failed t + 1\<rparr>) r1 =
         (x, r', ex')"
  shows "addCards_loop rem (c # cs) deck t r = (x, r', ex1 @ ex')"
  using assms by (simp add: await_def)

lemma addCards_loop_summary:
  "\<exists>t' r' ex. addCards_loop rem cards deck t r = (Inr t', r', ex) \<and>
      success t' = success t + int (length (filter accepted ex)) \<and>
      failed t' = failed t + int (length cards) - int (length (filter accepted ex)) \<and>
      length (filter accepted ex) \<le> length cards \<and>
      length (filter isDeckNames ex) = length cards"
proof (induction cards arbitrary: t r)
  case Nil
  show ?case by (simp add: return_def)
next
  case (Cons c cs)
  obtain b r1 ex1 where c: "addCard rem c deck r = (Inr b, r1, ex1)"
    by (rule addCard_cases)
  let ?t = "if b then t\<lparr>success := success t + 1\<rparr> else t\<lparr>failed := failed t + 1\<rparr>"
  from Cons.IH [of ?t r1] obtain t' r' ex where
    rest: "addCards_loop rem cs deck ?t r1 = (Inr t', r', ex)"
    and s: "success t' = success ?t + int (length (filter accepted ex))"
    and f: "failed t' = failed ?t + int (length cs) - int (length (filter accepted ex))"
    and le: "length (filter accepted ex) \<le> length cs"
    and d: "length (filter isDeckNames ex) = length cs"
    by blast
  have a1: "length (filter accepted ex1) = (if b then 1 else 0)"
    using addCard_accepted [of rem c deck r] c by simp
  have d1: "length (filter isDeckNames ex1) = 1"
    using addCard_deckNames [of rem c deck r] c by simp
  have "addCards_loop rem (c # cs) deck t r = (Inr t', r', ex1 @ ex)"
    using c rest by (rule addCards_loop_Cons)
  moreover have "success t' = success t + int (length (filter accepted (ex1 @ ex)))"
    using s a1 by simp
  moreover have
    "failed t' = failed t + int (length (c # cs)) - int (length (filter accepted (ex1 @ ex)))"
    using f a1 by simp
  moreover have "length (filter accepted (ex1 @ ex)) \<le> length (c # cs)"
    using le a1 by simp
  moreover have "length (filter isDeckNames (ex1 @ ex)) = length (c # cs)"
    using d d1 by simp
  ultimately show ?case by blast
qed

lemma addCards_loop_append:
  assumes "addCards_loop rem xs deck t r = (Inr t1, r1, ex1)"
    and "addCards_loop rem ys deck t1 r1 = (x, r', ex2)"
  shows "addCards_loop rem (xs @ ys) deck t r = (x, r', ex1 @ ex2)"
  using assms
proof (induction xs arbitrary: t r ex1)
  case Nil
  then show ?case by (simp add: return_def)
next
  case (Cons c cs)
  obtain b ra exa where c: "addCard rem c deck r = (Inr b, ra, exa)"
    by (rule addCard_cases)
  let ?t = "if b then t\<lparr>success := success t + 1\<rparr> else t\<lparr>failed := failed t + 1\<rparr>"
  obtain y rb exb where rest: "addCards_loop rem cs deck ?t ra = (y, rb, exb)"
    by (cases "addCards_loop rem cs deck ?t ra") auto
  from addCards_loop_Cons [OF c rest] Cons.prems(1)
  have y: "y = Inr t1" and rb: "rb = r1" and ex1: "ex1 = exa @ exb"
    by simp_all
  from Cons.IH [of ?t ra exb] rest y rb Cons.prems(2)
  have "addCards_loop rem (cs @ ys) deck ?t ra = (x, r', exb @ ex2)"
    by simp
  with c have "addCards_loop rem (c # cs @ ys) deck t r = (x, r', exa @ exb @ ex2)"
    by (rule addCards_loop_Cons)
  then show ?case using ex1 by simp
qed

subsection \<open>A card against a remote that keeps, creates or refuses the deck\<close>

text \<open>
  The deck-ensure step fails for a card: the deck is not listed and the create-deck call
  fails.  The card makes these two calls and no other, and \<^const>\<open>addCard\<close> returns false.
\<close>

lemma addCard_deck_ensure_fails:
  assumes "js_includes (namesOf (fst (rem r DeckNames))) deck = Some False"
    and "\<not> createdBy (fst (rem (snd (rem r DeckNames)) (CreateDeck deck)))"
  shows "addCard rem c deck r =
           (Inr False, snd (rem (snd (rem r DeckNames)) (CreateDeck deck)),
            [(DeckNames, fst (rem r DeckNames)),
             (CreateDeck deck, fst (rem (snd (rem r DeckNames)) (CreateDeck deck)))])"
  using assms by (simp add: addCard_eq Let_def)

lemma addCard_deck_listed:
  assumes "deckListed rem has deck" and "has r"
  shows "map fst (filter (\<lambda>e. isCreateDeck e \<or> isAddNote e) (snd (snd (addCard rem c deck r)))) =
           [AddNote (noteOf c deck)] \<and>
         map fst (filter isAddNote (snd (snd (addCard rem c deck r)))) = [AddNote (noteOf c deck)] \<and>
         has (fst (snd (addCard rem c deck r)))"
proof -
  have inc: "js_includes (namesOf (fst (rem r DeckNames))) deck = Some True"
    using assms by (simp add: deckListed_def)
  have keep: "\<And>r req. has r \<Longrightarrow> has (snd (rem r req))"
    using assms(1) by (simp add: deckListed_def)
  have h1: "has (snd (rem r DeckNames))"
    using assms(2) by (rule keep)
  have h3: "has (snd (rem (snd (rem r DeckNames)) (AddNote (noteOf c deck))))"
    using h1 by (rule keep)
  have h4: "\<And>req. has (snd (rem (snd (rem (snd (rem r DeckNames)) (AddNote (noteOf c deck)))) req))"
    using h3 by (rule keep)
  show ?thesis
    using inc h3 h4 by (simp add: addCard_eq Let_def split: option.split)
qed

lemma addCard_deck_created:
  assumes "deckCreatable rem fresh has deck" and "fresh r"
  shows "map fst (filter (\<lambda>e. isCreateDeck e \<or> isAddNote e) (snd (snd (addCard rem c deck r)))) =
           [CreateDeck deck, AddNote (noteOf c deck)] \<and>
         has (fst (snd (addCard rem c deck r)))"
proof -
  have inc: "js_includes (namesOf (fst (rem r DeckNames))) deck = Some False"
    and f1: "fresh (snd (rem r DeckNames))"
    using assms by (simp_all add: deckCreatable_def)
  have cr: "createdBy (fst (rem (snd (rem r DeckNames)) (CreateDeck deck)))"
    and h2: "has (snd (rem (snd (rem r DeckNames)) (CreateDeck deck)))"
    using assms(1) f1 by (simp_all add: deckCreatable_def)
  have keep: "\<And>r req. has r \<Longrightarrow> has (snd (rem r req))"
    using assms(1) by (simp add: deckCreatable_def deckListed_def)
  have h3: "has (snd (rem (snd (rem (snd (rem r DeckNames)) (CreateDeck deck)))
                       (AddNote (noteOf c deck))))"
    using h2 by (rule keep)
  have h4: "\<And>req. has (snd (rem (snd (rem (snd (rem (snd (rem r DeckNames)) (CreateDeck deck)))
                       (AddNote (noteOf c deck)))) req))"
    using h3 by (rule keep)
  show ?thesis
    using inc cr h3 h4 by (simp add: addCard_eq Let_def split: option.split)
qed

lemma addCard_deck_unavailable:
  assumes "deckUnavailable rem stuck deck" and "stuck r"
  shows "addCard rem c deck r =
           (Inr False, snd (rem (snd (rem r DeckNames)) (CreateDeck deck)),
            [(DeckNames, fst (rem r DeckNames)),
             (CreateDeck deck, fst (rem (snd (rem r DeckNames)) (CreateDeck deck)))]) \<and>
         stuck (snd (rem (snd (rem r DeckNames)) (CreateDeck deck)))"
proof -
  have inc: "js_includes (namesOf (fst (rem r DeckNames))) deck = Some False"
    and s1: "stuck (snd (rem r DeckNames))"
    using assms by (simp_all add: deckUnavailable_def)
  have cr: "\<not> createdBy (fst (rem (snd (rem r DeckNames)) (CreateDeck deck)))"
    and s2: "stuck (snd (rem (snd (rem r DeckNames)) (CreateDeck deck)))"
    using assms(1) s1 by (simp_all add: deckUnavailable_def)
  show ?thesis
    using inc cr s2 by (simp add: addCard_eq Let_def)
qed

lemma addCards_loop_deck_listed:
  assumes "deckListed rem has deck" and "has r"
  shows "map fst (filter (\<lambda>e. isCreateDeck e \<or> isAddNote e)
                    (snd (snd (addCards_loop rem cards deck t r)))) =
           map (\<lambda>c. AddNote (noteOf c deck)) cards \<and>
         map fst (filter isAddNote (snd (snd (addCards_loop rem cards deck t r)))) =
           map (\<lambda>c. AddNote (noteOf c deck)) cards"
  using assms(2)
proof (induction cards arbitrary: t r)
  case Nil
  show ?case by (simp add: return_def)
next
  case (Cons c cs)
  obtain b r1 ex1 where c: "addCard rem c deck r = (Inr b, r1, ex1)"
    by (rule addCard_cases)
  from addCard_deck_listed [OF assms(1) Cons.prems, of c] c
  have ex1: "map fst (filter (\<lambda>e. isCreateDeck e \<or> isAddNote e) ex1) = [AddNote (noteOf c deck)]"
    and an1: "map fst (filter isAddNote ex1) = [AddNote (noteOf c deck)]"
    and h1: "has r1"
    by simp_all
  let ?t = "if b then t\<lparr>success := success t + 1\<rparr> else t\<lparr>failed := failed t + 1\<rparr>"
  obtain x r' ex where rest: "addCards_loop rem cs deck ?t r1 = (x, r', ex)"
    by (cases "addCards_loop rem cs deck ?t r1") auto
  from Cons.IH [OF h1, of ?t] rest
  have ex: "map fst (filter (\<lambda>e. isCreateDeck e \<or> isAddNote e) ex) =
              map (\<lambda>c. AddNote (noteOf c deck)) cs"
    and an: "map fst (filter isAddNote ex) = map (\<lambda>c. AddNote (noteOf c deck)) cs"
    by simp_all
  have "addCards_loop rem (c # cs) deck t r = (x, r', ex1 @ ex)"
    using c rest by (rule addCards_loop_Cons)
  then show ?case using ex1 ex an1 an by simp
qed

lemma deckListed_bridge: "deckListed bridge (bridgeHas d) d"
proof -
  have "\<And>b req. bridgeHas d b \<Longrightarrow> bridgeHas d (snd (bridge b req))"
  proof -
    fix b req
    assume "bridgeHas d b"
    then show "bridgeHas d (snd (bridge b req))"
      by (cases req) (simp_all add: bridgeHas_def)
  qed
  moreover have "\<And>b. bridgeHas d b \<Longrightarrow>
      js_includes (namesOf (fst (bridge b DeckNames))) d = Some True"
    by (auto simp: bridgeHas_def)
  ultimately show ?thesis
    unfolding deckListed_def by blast
qed

lemma deckCreatable_bridge: "deckCreatable bridge (bridgeFresh d) (bridgeHas d) d"
proof -
  have "\<And>b. bridgeFresh d b \<Longrightarrow>
      js_includes (namesOf (fst (bridge b DeckNames))) d = Some False \<and>
      bridgeFresh d (snd (bridge b DeckNames)) \<and>
      createdBy (fst (bridge b (CreateDeck d))) \<and>
      bridgeHas d (snd (bridge b (CreateDeck d)))"
    by (auto simp: bridgeFresh_def bridgeHas_def)
  then show ?thesis
    unfolding deckCreatable_def using deckListed_bridge [of d] by blast
qed

lemma deckUnavailable_bridge: "deckUnavailable bridge (\<lambda>b. \<not> online b) d"
  by (simp add: deckUnavailable_def)

subsection \<open>The claims on the export\<close>

text \<open>
  When the deck-ensure step fails and goes on failing, no addNote call is issued: the only
  calls are one deckNames and one createDeck per card, and every card is counted as failed.
\<close>

lemma deck_unavailable_fails_every_card:
  assumes "deckUnavailable rem stuck deck" and "stuck r"
  shows "\<exists>r' ex. addCards rem cards deck r =
             (Inr \<lparr>success = 0, failed = int (length cards)\<rparr>, r', ex) \<and>
           map fst ex = concat (map (\<lambda>c. [DeckNames, CreateDeck deck]) cards) \<and>
           filter isAddNote ex = []"
proof -
  have loop: "\<exists>r' ex. addCards_loop rem cards deck t r =
             (Inr (t\<lparr>failed := failed t + int (length cards)\<rparr>), r', ex) \<and>
           map fst ex = concat (map (\<lambda>c. [DeckNames, CreateDeck deck]) cards) \<and>
           filter isAddNote ex = []" for t
    using assms(2)
  proof (induction cards arbitrary: t r)
    case Nil
    show ?case by (simp add: return_def)
  next
    case (Cons c cs)
    let ?r2 = "snd (rem (snd (rem r DeckNames)) (CreateDeck deck))"
    let ?ex1 = "[(DeckNames, fst (rem r DeckNames)),
                 (CreateDeck deck, fst (rem (snd (rem r DeckNames)) (CreateDeck deck)))]"
    from addCard_deck_unavailable [OF assms(1) Cons.prems, of c]
    have c: "addCard rem c deck r = (Inr False, ?r2, ?ex1)" and s2: "stuck ?r2"
      by simp_all
    from Cons.IH [OF s2, of "t\<lparr>failed := failed t + 1\<rparr>"] obtain r' ex where
      rest: "addCards_loop rem cs deck (t\<lparr>failed := failed t + 1\<rparr>) ?r2 =
               (Inr (t\<lparr>failed := failed t + 1 + int (length cs)\<rparr>), r', ex)"
      and reqs: "map fst ex = concat (map (\<lambda>c. [DeckNames, CreateDeck deck]) cs)"
      and none: "filter isAddNote ex = []"
      by auto
    have "addCards_loop rem (c # cs) deck t r =
            (Inr (t\<lparr>failed := failed t + 1 + int (length cs)\<rparr>), r', ?ex1 @ ex)"
      using c rest by (simp add: await_def)
    then show ?case using reqs none by (simp add: add.assoc add.commute)
  qed
  from loop [of "\<lparr>success = 0, failed = 0\<rparr>"] show ?thesis
    by (simp add: addCards_def)
qed

text \<open>
  C1, as amended.  The claim has the export abort when the deck-ensure step fails; the
  code ensures the deck anew for every card and has no abort.  If the deck-ensure step
  fails for a card, anywhere in an export (the cards before it have left the tally t and
  the remote in the state r), that card makes its deckNames and its createDeck call and no
  addNote call, and it is counted as failed; the export goes on with the cards after it,
  each of which opens with its own deckNames query.  When the step fails for every card,
  the whole export issues no addNote call, only one deckNames and one createDeck call per
  card, and returns the ordinary tally with success 0 and failed n.
\<close>

theorem deck_ensure_failure_fails_the_card_not_the_export:
  "(addCards rem pre deck r0 = (Inr t, r, ex0) \<and>
    js_includes (namesOf (fst (rem r DeckNames))) deck = Some False \<and>
    \<not> createdBy (fst (rem (snd (rem r DeckNames)) (CreateDeck deck))) \<longrightarrow>
      addCard rem c deck r =
        (Inr False, snd (rem (snd (rem r DeckNames)) (CreateDeck deck)),
         [(DeckNames, fst (rem r DeckNames)),
          (CreateDeck deck, fst (rem (snd (rem r DeckNames)) (CreateDeck deck)))]) \<and>
      (\<exists>t' r' ex.
          addCards_loop rem post deck (t\<lparr>failed := failed t + 1\<rparr>)
            (snd (rem (snd (rem r DeckNames)) (CreateDeck deck))) = (Inr t', r', ex) \<and>
          length (filter isDeckNames ex) = length post \<and>
          addCards rem (pre @ c # post) deck r0 =
            (Inr t', r',
             ex0 @ [(DeckNames, fst (rem r DeckNames)),
                    (CreateDeck deck, fst (rem (snd (rem r DeckNames)) (CreateDeck deck)))] @
             ex))) \<and>
   (deckUnavailable rem stuck deck \<and> stuck rs \<longrightarrow>
      (\<exists>r' ex. addCards rem cards deck rs =
                  (Inr \<lparr>success = 0, failed = int (length cards)\<rparr>, r', ex) \<and>
                map fst ex = concat (map (\<lambda>c. [DeckNames, CreateDeck deck]) cards) \<and>
                filter isAddNote ex = []))"
proof (intro conjI impI)
  let ?r2 = "snd (rem (snd (rem r DeckNames)) (CreateDeck deck))"
  let ?ex1 = "[(DeckNames, fst (rem r DeckNames)),
               (CreateDeck deck, fst (rem (snd (rem r DeckNames)) (CreateDeck deck)))]"
  assume h: "addCards rem pre deck r0 = (Inr t, r, ex0) \<and>
    js_includes (namesOf (fst (rem r DeckNames))) deck = Some False \<and>
    \<not> createdBy (fst (rem (snd (rem r DeckNames)) (CreateDeck deck)))"
  then have pre: "addCards rem pre deck r0 = (Inr t, r, ex0)"
    and absent: "js_includes (namesOf (fst (rem r DeckNames))) deck = Some False"
    and refused: "\<not> createdBy (fst (rem (snd (rem r DeckNames)) (CreateDeck deck)))"
    by simp_all
  show c: "addCard rem c deck r = (Inr False, ?r2, ?ex1)"
    using absent refused by (rule addCard_deck_ensure_fails)
  from addCards_loop_summary [of rem post deck "t\<lparr>failed := failed t + 1\<rparr>" ?r2]
  obtain t' r' ex where
    rest: "addCards_loop rem post deck (t\<lparr>failed := failed t + 1\<rparr>) ?r2 = (Inr t', r', ex)"
    and d: "length (filter isDeckNames ex) = length post"
    by blast
  have "addCards_loop rem (c # post) deck t r = (Inr t', r', ?ex1 @ ex)"
    using c rest by (simp add: await_def)
  with pre have "addCards rem (pre @ c # post) deck r0 = (Inr t', r', ex0 @ ?ex1 @ ex)"
    unfolding addCards_def by (rule addCards_loop_append)
  with rest d show "\<exists>t' r' ex.
          addCards_loop rem post deck (t\<lparr>failed := failed t + 1\<rparr>) ?r2 = (Inr t', r', ex) \<and>
          length (filter isDeckNames ex) = length post \<and>
          addCards rem (pre @ c # post) deck r0 = (Inr t', r', ex0 @ ?ex1 @ ex)"
    by blast
next
  assume "deckUnavailable rem stuck deck \<and> stuck rs"
  then show "\<exists>r' ex. addCards rem cards deck rs =
                  (Inr \<lparr>success = 0, failed = int (length cards)\<rparr>, r', ex) \<and>
                map fst ex = concat (map (\<lambda>c. [DeckNames, CreateDeck deck]) cards) \<and>
                filter isAddNote ex = []"
    using deck_unavailable_fails_every_card [of rem stuck deck rs cards] by simp
qed

text \<open>
  The bridge refuses the first create-deck call only: the first card fails on its two
  calls, the second is submitted.  And the bridge that is down fails both cards.
\<close>

theorem deck_ensure_failure_fails_the_card_not_the_export_witness:
  "addCard bridge (cardFor ''casa'') DEFAULT_DECK (freshBridge\<lparr>createFailures := 1\<rparr>) =
     (Inr False, freshBridge,
      [(DeckNames, noError (JArr [JStr ''Default''])),
       (CreateDeck DEFAULT_DECK, Some \<lparr>result = JNull, error = Some ''deck was not created''\<rparr>)]) \<and>
   fst (addCards bridge [cardFor ''casa'', cardFor ''perro''] DEFAULT_DECK
          (freshBridge\<lparr>createFailures := 1\<rparr>)) = Inr \<lparr>success = 1, failed = 1\<rparr> \<and>
   map fst (snd (snd (addCards bridge [cardFor ''casa'', cardFor ''perro''] DEFAULT_DECK
          (freshBridge\<lparr>createFailures := 1\<rparr>)))) =
     [DeckNames, CreateDeck DEFAULT_DECK, DeckNames, CreateDeck DEFAULT_DECK,
      AddNote (noteOf (cardFor ''perro'') DEFAULT_DECK)] \<and>
   fst (addCards bridge [cardFor ''casa'', cardFor ''perro''] DEFAULT_DECK
          (freshBridge\<lparr>online := False\<rparr>)) = Inr \<lparr>success = 0, failed = 2\<rparr> \<and>
   map fst (snd (snd (addCards bridge [cardFor ''casa'', cardFor ''perro''] DEFAULT_DECK
          (freshBridge\<lparr>online := False\<rparr>)))) =
     [DeckNames, CreateDeck DEFAULT_DECK, DeckNames, CreateDeck DEFAULT_DECK]"
proof -
  let ?flaky = "freshBridge\<lparr>createFailures := 1\<rparr>"
  let ?down = "freshBridge\<lparr>online := False\<rparr>"
  have p: "addCards bridge [] DEFAULT_DECK ?flaky = (Inr \<lparr>success = 0, failed = 0\<rparr>, ?flaky, [])"
    by (simp add: addCards_def return_def)
  have a: "js_includes (namesOf (fst (bridge ?flaky DeckNames))) DEFAULT_DECK = Some False"
    by (simp add: freshBridge_def DEFAULT_DECK_def)
  have b: "\<not> createdBy (fst (bridge (snd (bridge ?flaky DeckNames)) (CreateDeck DEFAULT_DECK)))"
    by (simp add: freshBridge_def)
  have u: "deckUnavailable bridge (\<lambda>b. \<not> online b) DEFAULT_DECK"
    by (rule deckUnavailable_bridge)
  have s: "\<not> online ?down"
    by simp
  have e: "fst (addCards bridge [cardFor ''casa'', cardFor ''perro''] DEFAULT_DECK ?flaky) =
             Inr \<lparr>success = 1, failed = 1\<rparr> \<and>
           map fst (snd (snd (addCards bridge [cardFor ''casa'', cardFor ''perro''] DEFAULT_DECK
             ?flaky))) =
             [DeckNames, CreateDeck DEFAULT_DECK, DeckNames, CreateDeck DEFAULT_DECK,
              AddNote (noteOf (cardFor ''perro'') DEFAULT_DECK)]"
    by (simp add: addCards_def await_def addCard_eq Let_def return_def freshBridge_def
        cardFor_def DEFAULT_DECK_def toLowerCase_def toLowerCase_char_def)
  have v: "snd (bridge (snd (bridge ?flaky DeckNames)) (CreateDeck DEFAULT_DECK)) = freshBridge
           \<and> fst (bridge ?flaky DeckNames) = noError (JArr [JStr ''Default''])
           \<and> fst (bridge (snd (bridge ?flaky DeckNames)) (CreateDeck DEFAULT_DECK)) =
               Some \<lparr>result = JNull, error = Some ''deck was not created''\<rparr>"
    by (simp add: freshBridge_def noError_def)
  from deck_ensure_failure_fails_the_card_not_the_export
         [where rem = bridge and pre = "[]" and deck = DEFAULT_DECK and ?r0.0 = ?flaky
            and t = "\<lparr>success = 0, failed = 0\<rparr>" and r = ?flaky and ?ex0.0 = "[]"
            and c = "cardFor ''casa''" and post = "[cardFor ''perro'']"
            and stuck = "\<lambda>b. \<not> online b" and rs = ?down
            and cards = "[cardFor ''casa'', cardFor ''perro'']"]
       p a b u s
  have "addCard bridge (cardFor ''casa'') DEFAULT_DECK ?flaky =
          (Inr False, snd (bridge (snd (bridge ?flaky DeckNames)) (CreateDeck DEFAULT_DECK)),
           [(DeckNames, fst (bridge ?flaky DeckNames)),
            (CreateDeck DEFAULT_DECK,
             fst (bridge (snd (bridge ?flaky DeckNames)) (CreateDeck DEFAULT_DECK)))])"
    and "\<exists>r' ex. addCards bridge [cardFor ''casa'', cardFor ''perro''] DEFAULT_DECK ?down =
                  (Inr \<lparr>success = 0, failed = int (length [cardFor ''casa'', cardFor ''perro''])\<rparr>,
                   r', ex) \<and>
                map fst ex =
                  concat (map (\<lambda>c. [DeckNames, CreateDeck DEFAULT_DECK])
                            [cardFor ''casa'', cardFor ''perro'']) \<and>
                filter isAddNote ex = []"
    by blast+
  with e v show ?thesis by auto
qed

text \<open>
  C1 as stated fails.  The bridge refuses the first create-deck call and creates the deck
  at the second: the deck-ensure step fails for the first card, the export goes on, and
  an addNote call is issued for the second card.  And when the bridge is down, so that the
  deck-ensure step fails for both cards, the outcome is the same as that of a completed
  run, on a deck that exists, in which the bridge refused both notes.
\<close>

theorem export_does_not_abort_counterexample:
  "map fst (snd (snd (addCards bridge [cardFor ''casa'', cardFor ''perro''] DEFAULT_DECK
      (freshBridge\<lparr>createFailures := 1\<rparr>)))) =
     [DeckNames, CreateDeck DEFAULT_DECK, DeckNames, CreateDeck DEFAULT_DECK,
      AddNote (noteOf (cardFor ''perro'') DEFAULT_DECK)] \<and>
   fst (addCards bridge [cardFor ''casa'', cardFor ''perro''] DEFAULT_DECK
      (freshBridge\<lparr>createFailures := 1\<rparr>)) = Inr \<lparr>success = 1, failed = 1\<rparr> \<and>
   fst (addCards bridge [cardFor ''casa'', cardFor ''perro''] DEFAULT_DECK
      (freshBridge\<lparr>online := False\<rparr>)) =
   fst (addCards bridge [cardFor ''casa'', cardFor ''perro''] ''Default''
      (freshBridge\<lparr>rejected := [''casa'', ''perro'']\<rparr>))"
  by (simp add: addCards_def await_def addCard_eq Let_def return_def freshBridge_def
      cardFor_def DEFAULT_DECK_def toLowerCase_def toLowerCase_char_def)

text \<open>
  C2, as amended.  For every export of n selected phrases, n at least 1 as the export's
  precondition has it, against a deck that does not exist yet and a remote tool where its
  creation succeeds and where, once the deck is created, every deck-names query answers
  and lists it, exactly one createDeck call is issued, it precedes every addNote call, and
  the addNote calls follow in selection order, one per selected phrase.
\<close>

theorem deck_created_once_then_notes_in_order:
  assumes "deckCreatable rem fresh has deck" and "fresh r" and "cards \<noteq> []"
  shows "map fst (filter (\<lambda>e. isCreateDeck e \<or> isAddNote e)
                    (snd (snd (addCards rem cards deck r)))) =
           CreateDeck deck # map (\<lambda>c. AddNote (noteOf c deck)) cards"
proof -
  from assms(3) obtain c cs where cards: "cards = c # cs"
    by (cases cards) auto
  obtain b r1 ex1 where c: "addCard rem c deck r = (Inr b, r1, ex1)"
    by (rule addCard_cases)
  from addCard_deck_created [OF assms(1) assms(2), of c] c
  have ex1: "map fst (filter (\<lambda>e. isCreateDeck e \<or> isAddNote e) ex1) =
               [CreateDeck deck, AddNote (noteOf c deck)]"
    and h1: "has r1"
    by simp_all
  have listed: "deckListed rem has deck"
    using assms(1) by (simp add: deckCreatable_def)
  let ?t = "if b then \<lparr>success = 0, failed = 0\<rparr>\<lparr>success := success \<lparr>success = 0, failed = 0\<rparr> + 1\<rparr>
            else \<lparr>success = 0, failed = 0\<rparr>\<lparr>failed := failed \<lparr>success = 0, failed = 0\<rparr> + 1\<rparr>"
  obtain x r' ex where rest: "addCards_loop rem cs deck ?t r1 = (x, r', ex)"
    by (cases "addCards_loop rem cs deck ?t r1") auto
  from addCards_loop_deck_listed [OF listed h1, of cs ?t] rest
  have ex: "map fst (filter (\<lambda>e. isCreateDeck e \<or> isAddNote e) ex) =
              map (\<lambda>c. AddNote (noteOf c deck)) cs"
    by simp
  have "addCards_loop rem (c # cs) deck \<lparr>success = 0, failed = 0\<rparr> r = (x, r', ex1 @ ex)"
    using c rest by (rule addCards_loop_Cons)
  then show ?thesis using ex1 ex cards by (simp add: addCards_def)
qed

theorem deck_created_once_then_notes_in_order_witness:
  "deckCreatable bridge (bridgeFresh DEFAULT_DECK) (bridgeHas DEFAULT_DECK) DEFAULT_DECK \<and>
   bridgeFresh DEFAULT_DECK freshBridge \<and>
   [cardFor ''casa'', cardFor ''perro'', cardFor ''gato''] \<noteq> [] \<and>
   map fst (filter (\<lambda>e. isCreateDeck e \<or> isAddNote e)
              (snd (snd (addCards bridge [cardFor ''casa'', cardFor ''perro'', cardFor ''gato'']
                           DEFAULT_DECK freshBridge)))) =
     [CreateDeck DEFAULT_DECK, AddNote (noteOf (cardFor ''casa'') DEFAULT_DECK),
      AddNote (noteOf (cardFor ''perro'') DEFAULT_DECK),
      AddNote (noteOf (cardFor ''gato'') DEFAULT_DECK)]"
proof -
  have d: "deckCreatable bridge (bridgeFresh DEFAULT_DECK) (bridgeHas DEFAULT_DECK) DEFAULT_DECK"
    by (rule deckCreatable_bridge)
  have f: "bridgeFresh DEFAULT_DECK freshBridge"
    by (simp add: bridgeFresh_def freshBridge_def DEFAULT_DECK_def)
  have n: "[cardFor ''casa'', cardFor ''perro'', cardFor ''gato''] \<noteq> []"
    by simp
  from deck_created_once_then_notes_in_order [OF d f n] d f n
  show ?thesis by simp
qed

text \<open>
  C2 as stated fails.  The deck does not exist and every create-deck call succeeds, but
  the deck-names query of the second card fails in transit, which \<^const>\<open>getDeckNames\<close> reads
  as no deck at all: the deck is created a second time, after the first addNote call.
\<close>

theorem deck_created_again_counterexample:
  "snd (snd (addCards scripted [cardFor ''casa'', cardFor ''perro''] DEFAULT_DECK
      [noError (JArr [JStr ''Default'']), noError (JNum 1), noError (JNum 10),
       None, noError (JNum 1), noError (JNum 11)])) =
     [(DeckNames, noError (JArr [JStr ''Default''])),
      (CreateDeck DEFAULT_DECK, noError (JNum 1)),
      (AddNote (noteOf (cardFor ''casa'') DEFAULT_DECK), noError (JNum 10)),
      (DeckNames, None),
      (CreateDeck DEFAULT_DECK, noError (JNum 1)),
      (AddNote (noteOf (cardFor ''perro'') DEFAULT_DECK), noError (JNum 11))] \<and>
   length (filter isCreateDeck
     (snd (snd (addCards scripted [cardFor ''casa'', cardFor ''perro''] DEFAULT_DECK
        [noError (JArr [JStr ''Default'']), noError (JNum 1), noError (JNum 10),
         None, noError (JNum 1), noError (JNum 11)])))) = 2"
  by (simp add: addCards_def await_def addCard_eq Let_def return_def scripted_def noError_def
      cardFor_def DEFAULT_DECK_def)

text \<open>An export of no phrase makes no call at all.\<close>

lemma empty_export_makes_no_call:
  "addCards rem [] deck r = (Inr \<lparr>success = 0, failed = 0\<rparr>, r, [])"
  by (simp add: addCards_def return_def)




text \<open>
  C10.  Every addNote request that \<^const>\<open>addCard\<close> makes for a card carries the model name
  Basic and the tags exemplar, vocabulary and the card's word in lower case.
\<close>

theorem addNote_model_and_tags:
  assumes "(AddNote n, resp) \<in> set (snd (snd (addCard rem c deck r)))"
  shows "modelName n = ''Basic'' \<and> tags n = [''exemplar'', ''vocabulary'', toLowerCase (word c)]"
proof -
  let ?notes = "map fst (filter isAddNote (snd (snd (addCard rem c deck r))))"
  from assms have "(AddNote n, resp) \<in> set (filter isAddNote (snd (snd (addCard rem c deck r))))"
    by simp
  then have "fst (AddNote n, resp) \<in> fst ` set (filter isAddNote (snd (snd (addCard rem c deck r))))"
    by (rule imageI)
  then have mem: "AddNote n \<in> set ?notes"
    by simp
  from addCard_addNote [of rem c deck r] have "?notes = [] \<or> ?notes = [AddNote (noteOf c deck)]" .
  then have "n = noteOf c deck"
  proof
    assume "?notes = []"
    with mem show ?thesis by simp
  next
    assume "?notes = [AddNote (noteOf c deck)]"
    with mem show ?thesis by simp
  qed
  then show ?thesis by simp
qed

theorem addNote_model_and_tags_witness:
  "(AddNote (noteOf (cardFor ''Perro'') ''Default''), Some \<lparr>result = JNum 1, error = None\<rparr>)
     \<in> set (snd (snd (addCard bridge (cardFor ''Perro'') ''Default'' freshBridge))) \<and>
   modelName (noteOf (cardFor ''Perro'') ''Default'') = ''Basic'' \<and>
   tags (noteOf (cardFor ''Perro'') ''Default'') = [''exemplar'', ''vocabulary'', ''perro'']"
proof -
  have lc: "toLowerCase ''Perro'' = ''perro''"
    by code_simp
  have w: "word (cardFor ''Perro'') = ''Perro''"
    by (simp add: cardFor_def)
  have m: "(AddNote (noteOf (cardFor ''Perro'') ''Default''), Some \<lparr>result = JNum 1, error = None\<rparr>)
     \<in> set (snd (snd (addCard bridge (cardFor ''Perro'') ''Default'' freshBridge)))"
    by (simp add: addCard_eq Let_def freshBridge_def lc w) (simp add: cardFor_def)
  from addNote_model_and_tags [OF m] m lc w show ?thesis by simp
qed

text \<open>
  C8, as amended.  For the card of the example the front and the back both contain the
  word casa; the back contains the category text nouns, and the front, which shows only
  the image and the word, does not.
\<close>

theorem casa_card_fragments:
  "includes_str (front_html (formatCard casaCard)) ''casa'' \<and>
   includes_str (back_html (formatCard casaCard)) ''casa'' \<and>
   includes_str (back_html (formatCard casaCard)) ''nouns'' \<and>
   \<not> includes_str (front_html (formatCard casaCard)) ''nouns''"
  by code_simp

text \<open>C8 as stated fails: the front of that card does not contain the category text.\<close>

theorem front_lacks_category_counterexample:
  "\<not> (includes_str (front_html (formatCard casaCard)) ''casa'' \<and>
      includes_str (front_html (formatCard casaCard)) ''nouns'' \<and>
      includes_str (back_html (formatCard casaCard)) ''casa'' \<and>
      includes_str (back_html (formatCard casaCard)) ''nouns'')"
  by code_simp

section \<open>Properties of the search view\<close>

lemma trim_blank:
  assumes "\<forall>c\<in>set w. isWhiteSpace c"
  shows "trim w = []"
proof -
  have "dropWhile isWhiteSpace w = []"
    using assms by (simp only: dropWhile_eq_Nil_conv)
  then show ?thesis by (simp add: trim_def del: dropWhile_eq_Nil_conv)
qed

text \<open>
  The events of one search with nothing else going on lead to the state that
  \<^const>\<open>handleSearch\<close> gives, with the same calls.
\<close>

lemma search_alone:
  assumes "trim w \<noteq> []"
  shows "run \<lparr>app = s, pending = [], calls = []\<rparr>
           [Search w, AddSearchSettled 0 (Fulfilled ()),
            LookupsSettled 0 (searchImages api w 1 6) (generatePhrases api w)
              (generateExplanation api w)] =
         \<lparr>app = fst (handleSearch (api\<lparr>addSearch := \<lambda>w. Fulfilled ()\<rparr>) s w), pending = [],
          calls = snd (handleSearch (api\<lparr>addSearch := \<lambda>w. Fulfilled ()\<rparr>) s w)\<rparr>"
  using assms by (simp add: run_def handleSearch_def without_def Let_def)

text \<open>
  C9.  A query that is empty or made of white space only does nothing: the state is the
  one before, and no call is made, neither to the history nor to a lookup.  The same
  holds for the search event of a session.
\<close>

theorem blank_search_is_noop:
  assumes "\<forall>c\<in>set w. isWhiteSpace c"
  shows "handleSearch api s w = (s, []) \<and> step \<sigma> (Search w) = \<sigma>"
  using trim_blank [OF assms] by (simp add: handleSearch_def)

theorem blank_search_is_noop_witness:
  "list_all isWhiteSpace [CHR '' '', CHR 0x09, CHR ''\<newline>''] \<and>
   handleSearch noImagesApi initialState [CHR '' '', CHR 0x09, CHR ''\<newline>''] =
     (initialState, []) \<and>
   step initialSession (Search [CHR '' '', CHR 0x09, CHR ''\<newline>'']) = initialSession"
proof -
  have h: "\<forall>c\<in>set [CHR '' '', CHR 0x09, CHR ''\<newline>'']. isWhiteSpace c"
    by (simp add: isWhiteSpace_def)
  from blank_search_is_noop [OF h] h show ?thesis by simp
qed

text \<open>
  C3.  When the image lookup of a search rejects, the paginated images are the empty
  first and only page, the merged result has no image, and the phrases and the
  explanation are what their own lookups gave, whatever they gave.  The lookup is issued
  only for a word that is not blank and once the history call has fulfilled.
\<close>

theorem image_rejection_is_isolated:
  assumes "trim w \<noteq> []" and "addSearch api w = Fulfilled u" and "searchImages api w 1 6 = Rejected"
  shows "paginatedImages (fst (handleSearch api s w)) =
           Some \<lparr>images = [], currentPage = 1, totalPages = 1, hasNext = False,
                 hasPrevious = False\<rparr> \<and>
         searchResult (fst (handleSearch api s w)) =
           Some \<lparr>result_word = w, result_images = [],
                 result_phrases =
                   (case generatePhrases api w of Fulfilled v \<Rightarrow> v | Rejected \<Rightarrow> [])\<rparr> \<and>
         explanation_st (fst (handleSearch api s w)) =
           (case generateExplanation api w of Fulfilled v \<Rightarrow> Some v | Rejected \<Rightarrow> None) \<and>
         snd (handleSearch api s w) =
           [AddSearch w, SearchImages w 1 6, GeneratePhrases w, GenerateExplanation w]"
  using assms
  by (simp add: handleSearch_def handleSearch_begin_def handleSearch_finally_def
      handleSearch_settled_def lookups_def)

theorem image_rejection_is_isolated_witness:
  "trim ''casa'' \<noteq> [] \<and> addSearch noImagesApi ''casa'' = Fulfilled () \<and>
   searchImages noImagesApi ''casa'' 1 6 = Rejected \<and>
   paginatedImages (fst (handleSearch noImagesApi initialState ''casa'')) =
     Some \<lparr>images = [], currentPage = 1, totalPages = 1, hasNext = False, hasPrevious = False\<rparr> \<and>
   searchResult (fst (handleSearch noImagesApi initialState ''casa'')) =
     Some \<lparr>result_word = ''casa'', result_images = [], result_phrases = somePhrases ''casa''\<rparr> \<and>
   explanation_st (fst (handleSearch noImagesApi initialState ''casa'')) = Some ''house''"
proof -
  have t: "trim ''casa'' \<noteq> []"
    by (simp add: trim_def isWhiteSpace_def)
  have a: "addSearch noImagesApi ''casa'' = Fulfilled ()"
    by (simp add: noImagesApi_def)
  have i: "searchImages noImagesApi ''casa'' 1 6 = Rejected"
    by (simp add: noImagesApi_def)
  from image_rejection_is_isolated [OF t a i, of initialState] t a i
  show ?thesis by (simp add: noImagesApi_def)
qed

text \<open>
  C4, as amended.  The append to the search history is awaited before anything else.
  When it fulfils, the three lookups are issued and their merged result is produced and
  stored: the word with the images and the phrases that the lookups gave (none where one
  rejected), next to the paginated images and the explanation, with the loading flags
  back to false.  When it rejects, the search ends there: no lookup is issued, no merged
  result is produced, the merged result of the search before stays, and what remains are
  the resets made at the start and the loading flags put back to false.
\<close>

theorem history_is_awaited_first:
  assumes "trim w \<noteq> []"
  shows "handleSearch api s w =
           (case addSearch api w of
              Fulfilled u \<Rightarrow>
                (s\<lparr>isLoading := False, isImagesLoading := False, currentWord := w,
                   selectedPhrases := [], selectedImages := [], ankiMode := False,
                   paginatedImages :=
                     Some (case searchImages api w 1 6 of
                             Fulfilled v \<Rightarrow> v
                           | Rejected \<Rightarrow>
                               \<lparr>images = [], currentPage = 1, totalPages = 1, hasNext = False,
                                hasPrevious = False\<rparr>),
                   searchResult :=
                     Some \<lparr>result_word = w,
                           result_images =
                             (case searchImages api w 1 6 of
                                Fulfilled v \<Rightarrow> images v | Rejected \<Rightarrow> []),
                           result_phrases =
                             (case generatePhrases api w of
                                Fulfilled v \<Rightarrow> v | Rejected \<Rightarrow> [])\<rparr>,
                   explanation_st :=
                     (case generateExplanation api w of
                        Fulfilled v \<Rightarrow> Some v | Rejected \<Rightarrow> None)\<rparr>,
                 [AddSearch w, SearchImages w 1 6, GeneratePhrases w, GenerateExplanation w])
            | Rejected \<Rightarrow>
                (s\<lparr>isLoading := False, isImagesLoading := False, currentWord := w,
                   explanation_st := None, paginatedImages := None, selectedPhrases := [],
                   selectedImages := [], ankiMode := False\<rparr>,
                 [AddSearch w]))"
  using assms
  by (simp add: handleSearch_def handleSearch_begin_def handleSearch_finally_def
      handleSearch_settled_def lookups_def Let_def split: settled.split)

text \<open>
  Both ways, from the state that the search for perro has left: with the history down the
  merged result for perro stays and nothing but the history call is made; with every call
  fulfilling the merged result for casa is stored.
\<close>

theorem history_is_awaited_first_witness:
  "handleSearch noHistoryApi previousState ''casa'' =
     (previousState\<lparr>currentWord := ''casa'', explanation_st := None, paginatedImages := None,
        selectedPhrases := [], selectedImages := [], ankiMode := False\<rparr>,
      [AddSearch ''casa'']) \<and>
   searchResult (fst (handleSearch noHistoryApi previousState ''casa'')) =
     Some \<lparr>result_word = ''perro'', result_images = images (pageOf ''perro'' 1),
           result_phrases = somePhrases ''perro''\<rparr> \<and>
   handleSearch workingApi previousState ''casa'' =
     (previousState\<lparr>currentWord := ''casa'', explanation_st := Some ''house'',
        paginatedImages := Some (pageOf ''casa'' 1),
        searchResult :=
          Some \<lparr>result_word = ''casa'', result_images = images (pageOf ''casa'' 1),
                result_phrases = somePhrases ''casa''\<rparr>,
        selectedPhrases := [], selectedImages := [], ankiMode := False\<rparr>,
      [AddSearch ''casa'', SearchImages ''casa'' 1 6, GeneratePhrases ''casa'',
       GenerateExplanation ''casa''])"
proof -
  have t: "trim ''casa'' \<noteq> []"
    by (simp add: trim_def isWhiteSpace_def)
  from history_is_awaited_first [OF t, of noHistoryApi previousState]
       history_is_awaited_first [OF t, of workingApi previousState]
  show ?thesis by (simp add: noHistoryApi_def workingApi_def previousState_def)
qed

text \<open>
  C4 as stated fails: when the history call rejects, none of the three lookups is issued
  and no merged result is stored, although each lookup would have fulfilled.
\<close>

theorem history_failure_stops_search_counterexample:
  "snd (handleSearch noHistoryApi initialState ''casa'') = [AddSearch ''casa''] \<and>
   searchResult (fst (handleSearch noHistoryApi initialState ''casa'')) = None \<and>
   searchImages noHistoryApi ''casa'' 1 6 = Fulfilled (pageOf ''casa'' 1) \<and>
   generatePhrases noHistoryApi ''casa'' = Fulfilled (somePhrases ''casa'') \<and>
   generateExplanation noHistoryApi ''casa'' = Fulfilled ''house''"
  by (simp add: handleSearch_def handleSearch_begin_def handleSearch_finally_def
      noHistoryApi_def initialState_def trim_def isWhiteSpace_def)

subsection \<open>Page changes\<close>

text \<open>What \<^verbatim>\<open>handlePageChange\<close> does by itself, as C7 says.\<close>

lemma page_change_guard:
  assumes "currentWord s = [] \<or> isImagesLoading s"
  shows "handlePageChange api s page = (s, [])"
  using assms by (auto simp: handlePageChange_def handlePageChange_begin_def)

lemma page_change_dropped_while_flag_is_set:
  assumes "currentWord (app \<sigma>) = [] \<or> isImagesLoading (app \<sigma>)"
  shows "run \<sigma> (map PageChange pages) = \<sigma>"
  using assms by (induction pages) (auto simp: run_def handlePageChange_begin_def)

lemma page_change_failure_keeps_state:
  "handlePageChange_settled s Rejected = s\<lparr>isImagesLoading := False\<rparr>"
  by (simp add: handlePageChange_settled_def)

lemma page_change_success_replaces_images_only:
  "paginatedImages (handlePageChange_settled s (Fulfilled p)) = Some p \<and>
   map_option result_images (searchResult (handlePageChange_settled s (Fulfilled p))) =
     map_option (\<lambda>prev. images p) (searchResult s) \<and>
   map_option result_phrases (searchResult (handlePageChange_settled s (Fulfilled p))) =
     map_option result_phrases (searchResult s) \<and>
   map_option result_word (searchResult (handlePageChange_settled s (Fulfilled p))) =
     map_option result_word (searchResult s)"
  by (simp add: handlePageChange_settled_def split: option.split)

text \<open>
  C7 at the failing input.  The page request for the word a is still awaited when the
  search for b settles; the \<^verbatim>\<open>finally\<close> block of that search puts the flag back to false,
  so the request for page 3 is not dropped: two page requests are awaited at once.  Both
  are applied when they settle, and the one for a, settling last, leaves the images of a
  in the merged result of b.
\<close>

theorem page_request_not_dropped_after_search:
  "pending (run initialSession (take 7 overlappingEvents)) = [AwaitPage ''a'' 2] \<and>
   isImagesLoading (app (run initialSession (take 7 overlappingEvents))) = False \<and>
   pending (run initialSession overlappingEvents) = [AwaitPage ''a'' 2, AwaitPage ''b'' 3] \<and>
   calls (run initialSession overlappingEvents) =
     [AddSearch ''a'', SearchImages ''a'' 1 6, GeneratePhrases ''a'', GenerateExplanation ''a'',
      SearchImages ''a'' 2 6,
      AddSearch ''b'', SearchImages ''b'' 1 6, GeneratePhrases ''b'', GenerateExplanation ''b'',
      SearchImages ''b'' 3 6] \<and>
   paginatedImages (app (run initialSession
       (overlappingEvents @ [PageSettled 1 (Fulfilled (pageOf ''b'' 3))]))) =
     Some (pageOf ''b'' 3) \<and>
   paginatedImages (app (run initialSession
       (overlappingEvents @ [PageSettled 1 (Fulfilled (pageOf ''b'' 3)),
                             PageSettled 0 (Fulfilled (pageOf ''a'' 2))]))) =
     Some (pageOf ''a'' 2) \<and>
   searchResult (app (run initialSession
       (overlappingEvents @ [PageSettled 1 (Fulfilled (pageOf ''b'' 3)),
                             PageSettled 0 (Fulfilled (pageOf ''a'' 2))]))) =
     Some \<lparr>result_word = ''b'', result_images = images (pageOf ''a'' 2), result_phrases = []\<rparr>"
  by code_simp

end
